theory Spec2Isabelle
  imports Complex_Main "HOL-Library.Word"
begin

section \<open>JavaScript values shared by the client and the server code\<close>

text \<open>
  A byte buffer (\<open>ArrayBuffer\<close>, \<open>Buffer\<close>, the content of a \<open>Blob\<close>) is a list of
  octets; \<open>byteLength\<close>, \<open>length\<close> and \<open>size\<close> are its length.
\<close>

type_synonym bytes = "8 word list"

text \<open>
  What a \<open>throw\<close> or a rejected promise carries: a \<open>TRPCError\<close> (code and message), any
  other \<open>Error\<close> (message), or a value that is not an \<open>Error\<close>.
\<close>

datatype trpc_code = BAD_REQUEST | INTERNAL_SERVER_ERROR

datatype thrown = TRPCError trpc_code string | Error string | NotAnError

text \<open>
  JavaScript numbers are IEEE doubles. The sizes and dimensions involved are integers far
  below \<open>2^53\<close>, so sums and differences are exact and are modelled on \<open>int\<close>; quotients are
  modelled as exact real quotients. \<open>Math.round\<close> rounds to the nearest integer, a tie towards
  \<open>+\<infinity>\<close>.
\<close>

definition Math_round :: "real \<Rightarrow> int" where
  "Math_round x = \<lfloor>x + 1 / 2\<rfloor>"

section \<open>Preprocessor\<close>

text \<open>
  A \<open>File\<close> (a \<open>Blob\<close> with a name): its bytes, its name and its declared MIME type.
  The worker handles plain \<open>Blob\<close>s, which are files whose name is not read.
\<close>

record File =
  content :: bytes
  name :: string
  type :: string

definition file_size :: "File \<Rightarrow> nat" where
  "file_size f = length (content f)"

text \<open>
  The browser's image and canvas API as the code calls it. Each call either throws (or
  rejects) with a value, or returns:
  \<^item> \<open>createImageBitmap file\<close> decodes and gives the bitmap's \<open>width\<close> and \<open>height\<close>;
  \<^item> \<open>getContext width height\<close> tells whether the canvas of that size gave a 2d context;
  \<^item> \<open>drawImage file width height\<close> draws the decoded bitmap scaled to the canvas;
  \<^item> \<open>toBlob file width height type quality\<close> encodes the canvas and passes the bytes,
    or \<open>null\<close> (here \<open>None\<close>), to its callback;
  \<^item> \<open>convertToBlob file width height type quality\<close> is the \<open>OffscreenCanvas\<close> variant
    whose promise resolves with a blob: its bytes and the MIME type the encoder chose.
\<close>

record browser =
  createImageBitmap :: "File \<Rightarrow> thrown + nat \<times> nat"
  getContext :: "int \<Rightarrow> int \<Rightarrow> thrown + bool"
  drawImage :: "File \<Rightarrow> int \<Rightarrow> int \<Rightarrow> thrown + unit"
  toBlob :: "File \<Rightarrow> int \<Rightarrow> int \<Rightarrow> string \<Rightarrow> real \<Rightarrow> thrown + bytes option"
  convertToBlob :: "File \<Rightarrow> int \<Rightarrow> int \<Rightarrow> string \<Rightarrow> real \<Rightarrow> thrown + bytes \<times> string"

definition maxDim :: nat where
  "maxDim = 2048"

text \<open>
  The computation of the new size, the same in the page and in the worker:
  \<^verbatim>\<open>
  let width = img.width; let height = img.height;
  if (width > maxDim || height > maxDim) {
    if (width > height) { height = Math.round((height / width) * maxDim); width = maxDim; }
    else                { width = Math.round((width / height) * maxDim); height = maxDim; }
  }
  \<close>
  Every division here has a divisor above \<open>maxDim\<close> or above the other side, hence not zero.
\<close>

definition target_dimensions :: "nat \<Rightarrow> nat \<Rightarrow> int \<times> int" where
  "target_dimensions width height =
     (if width > maxDim \<or> height > maxDim then
        (if width > height
         then (int maxDim, Math_round ((of_nat height / of_nat width) * of_nat maxDim))
         else (Math_round ((of_nat width / of_nat height) * of_nat maxDim), int maxDim))
      else (int width, int height))"

text \<open>The body of the \<open>try\<close> block of the page's \<open>preprocessImage\<close>.\<close>

definition preprocessImage_try :: "browser \<Rightarrow> File \<Rightarrow> thrown + File" where
  "preprocessImage_try env f =
     (case createImageBitmap env f of
        Inl e \<Rightarrow> Inl e
      | Inr (w, h) \<Rightarrow>
          (case target_dimensions w h of (width, height) \<Rightarrow>
             (case getContext env width height of
                Inl e \<Rightarrow> Inl e
              | Inr False \<Rightarrow> Inl (Error ''Failed to get canvas context'')
              | Inr True \<Rightarrow>
                  (case drawImage env f width height of
                     Inl e \<Rightarrow> Inl e
                   | Inr _ \<Rightarrow>
                       (case toBlob env f width height (type f) (8 / 10) of
                          Inl e \<Rightarrow> Inl e
                        | Inr None \<Rightarrow> Inr \<lparr>content = content f, name = name f, type = type f\<rparr>
                        | Inr (Some b) \<Rightarrow> Inr \<lparr>content = b, name = name f, type = type f\<rparr>)))))"

text \<open>
  The page's \<open>preprocessImage\<close>: files of at most 5 MiB are returned at once, the rest go
  through the \<open>try\<close> block, and \<open>catch (error) { return file; }\<close> answers every throw.
\<close>

definition preprocessImage :: "browser \<Rightarrow> File \<Rightarrow> File" where
  "preprocessImage env f =
     (if file_size f \<le> 5 * 1024 * 1024 then f
      else (case preprocessImage_try env f of Inl error \<Rightarrow> f | Inr processed \<Rightarrow> processed))"

text \<open>
  The worker's \<open>preprocessImage\<close> has no \<open>try\<close> of its own: a throw leaves the function.
\<close>

definition worker_preprocessImage :: "browser \<Rightarrow> File \<Rightarrow> thrown + File" where
  "worker_preprocessImage env f =
     (if file_size f \<le> 5 * 1024 * 1024 then Inr f
      else
        (case createImageBitmap env f of
           Inl e \<Rightarrow> Inl e
         | Inr (w, h) \<Rightarrow>
             (case target_dimensions w h of (width, height) \<Rightarrow>
                (case getContext env width height of
                   Inl e \<Rightarrow> Inl e
                 | Inr False \<Rightarrow> Inl (Error ''Failed to get canvas context'')
                 | Inr True \<Rightarrow>
                     (case drawImage env f width height of
                        Inl e \<Rightarrow> Inl e
                      | Inr _ \<Rightarrow>
                          (case convertToBlob env f width height (type f) (8 / 10) of
                             Inl e \<Rightarrow> Inl e
                           | Inr (b, t) \<Rightarrow> Inr \<lparr>content = b, name = name f, type = t\<rparr>))))))"

text \<open>What the worker posts back: the processed blob, or an object with an \<open>error\<close> field.\<close>

datatype worker_message = Processed File | ErrorMessage string

definition onmessage :: "browser \<Rightarrow> File \<Rightarrow> worker_message" where
  "onmessage env f =
     (case worker_preprocessImage env f of
        Inr processedFile \<Rightarrow> Processed processedFile
      | Inl (Error m) \<Rightarrow> ErrorMessage m
      | Inl (TRPCError c m) \<Rightarrow> ErrorMessage m
      | Inl NotAnError \<Rightarrow> ErrorMessage ''Unknown error'')"

section \<open>Progress estimation in the page\<close>

datatype stage = idle | uploading | compressing | downloading

text \<open>
  The first page variant animates with \<open>requestAnimationFrame\<close>:
  \<^verbatim>\<open>
  let start: number | null = null;
  const duration = 3000;
  const animate = (timestamp: number) => {
    if (!start) start = timestamp;
    const elapsed = timestamp - start;
    const progress = Math.min((elapsed / duration) * 95, 95);
    setProgress(progress);
    if (progress < 95) requestAnimationFrame(animate);
  };
  \<close>
  \<open>animate_progress\<close> is the value as a function of the elapsed time.
\<close>

definition duration :: real where
  "duration = 3000"

definition animate_progress :: "real \<Rightarrow> real" where
  "animate_progress elapsed = min ((elapsed / duration) * 95) 95"

text \<open>
  The page's state as far as progress goes: the two \<open>useState\<close> cells, the local \<open>start\<close>
  of the animation, and whether a further frame has been requested.
\<close>

record page_state =
  progress :: real
  page_stage :: stage
  start :: "real option"
  scheduled :: bool

text \<open>\<open>!start\<close> holds for \<open>null\<close> and for \<open>0\<close>.\<close>

definition animate :: "real \<Rightarrow> page_state \<Rightarrow> page_state" where
  "animate timestamp st =
     (let start' = (if start st = None \<or> start st = Some 0 then timestamp else the (start st));
          elapsed = timestamp - start';
          p = animate_progress elapsed
      in st\<lparr>progress := p, start := Some start', scheduled := (p < 95)\<rparr>)"

text \<open>
  \<open>compressMutation\<close>'s callbacks: \<open>onSuccess\<close> sets the stage to idle and the progress to
  100; \<open>onError\<close> sets the stage to idle and leaves the progress.
\<close>

definition onSuccess :: "page_state \<Rightarrow> page_state" where
  "onSuccess st = st\<lparr>page_stage := idle, progress := 100\<rparr>"

definition onError :: "page_state \<Rightarrow> page_state" where
  "onError st = st\<lparr>page_stage := idle\<rparr>"

text \<open>
  What can happen after \<open>setStage("compressing"); setProgress(0)\<close>: an animation frame
  with its timestamp, or the end of the mutation.
\<close>

datatype page_event = Frame real | Success | Failure

fun page_step :: "page_state \<Rightarrow> page_event \<Rightarrow> page_state" where
  "page_step st (Frame timestamp) = animate timestamp st"
| "page_step st Success = onSuccess st"
| "page_step st Failure = onError st"

definition compressing_start :: page_state where
  "compressing_start = \<lparr>progress = 0, page_stage = compressing, start = None, scheduled = True\<rparr>"

definition page_run :: "page_event list \<Rightarrow> page_state" where
  "page_run events = foldl page_step compressing_start events"

text \<open>
  The second page variant samples the clock:
  \<^verbatim>\<open>
  const startTime = Date.now();
  const minTime = 15000; const maxTime = 20000; const targetProgress = 99;
  const updateProgress = () => {
    const elapsed = Date.now() - startTime;
    const progress = Math.min(30 + (elapsed / minTime) * 69, targetProgress);
    setProgress(progress);
    if (elapsed < maxTime && progress < targetProgress)
      animationFrame = requestAnimationFrame(updateProgress);
  };
  \<close>
\<close>

definition minTime :: real where
  "minTime = 15000"

definition maxTime :: real where
  "maxTime = 20000"

definition targetProgress :: real where
  "targetProgress = 99"

definition updateProgress_progress :: "real \<Rightarrow> real" where
  "updateProgress_progress elapsed = min (30 + (elapsed / minTime) * 69) targetProgress"

text \<open>
  \<open>updateProgress startTime now st\<close>: the callback run when \<open>Date.now()\<close> reads \<open>now\<close>.
  The completion code of this variant (\<open>setStage("idle"); setProgress(100)\<close> after the
  response was read) writes the same two cells as \<open>onSuccess\<close>, and its \<open>catch\<close> the same
  as \<open>onError\<close>.
\<close>

definition updateProgress :: "real \<Rightarrow> real \<Rightarrow> page_state \<Rightarrow> page_state" where
  "updateProgress startTime now st =
     (let elapsed = now - startTime;
          p = updateProgress_progress elapsed
      in st\<lparr>progress := p, scheduled := (elapsed < maxTime \<and> p < targetProgress)\<rparr>)"

fun fetch_page_step :: "real \<Rightarrow> page_state \<Rightarrow> page_event \<Rightarrow> page_state" where
  "fetch_page_step startTime st (Frame now) = updateProgress startTime now st"
| "fetch_page_step startTime st Success = onSuccess st"
| "fetch_page_step startTime st Failure = onError st"

text \<open>
  This variant enters the compressing stage with the progress the upload left, at most 30
  (\<open>(loaded / total) * 30\<close>).
\<close>

definition fetch_page_run :: "real \<Rightarrow> real \<Rightarrow> page_event list \<Rightarrow> page_state" where
  "fetch_page_run startTime uploaded events =
     foldl (fetch_page_step startTime)
       \<lparr>progress = uploaded, page_stage = compressing, start = None, scheduled = True\<rparr> events"

section \<open>The remote service as the server code sees it\<close>

datatype mime = image_png | image_jpeg | image_jpg | image_webp | image_avif

fun mime_string :: "mime \<Rightarrow> string" where
  "mime_string image_png = ''image/png''"
| "mime_string image_jpeg = ''image/jpeg''"
| "mime_string image_jpg = ''image/jpg''"
| "mime_string image_webp = ''image/webp''"
| "mime_string image_avif = ''image/avif''"

text \<open>The options sent with a conversion: \<open>TinyPNGOptions\<close>.\<close>

datatype resize_method = fit | cover | contain

record resize_options =
  resize_width :: "real option"
  resize_height :: "real option"
  resize_method :: "resize_method option"

record TinyPNGOptions =
  resize :: "resize_options option"
  preserve :: "string list"
  convert :: "mime option"

text \<open>A \<open>fetch\<close> call: where to, how, with which body and headers.\<close>

datatype http_method = GET | POST

datatype request_body = NoBody | RawBody bytes | JsonBody TinyPNGOptions

record request =
  req_url :: string
  req_method :: http_method
  req_body :: request_body
  req_content_type :: "string option"
  req_authorization :: bool

text \<open>
  The two JSON bodies the service answers with: \<open>{ message }\<close> on an error and
  \<open>{ output: { url, size, type } }\<close> (\<open>TinyPNGResponse\<close>) on success. The fields the code reads of a parsed
  object, either of which may be missing, typed as the code's annotations say.
\<close>

record tinypng_output =
  url :: string
  output_size :: int
  output_type :: string

record json_object =
  message :: "string option"
  output_field :: "tinypng_output option"

text \<open>
  What \<open>json()\<close> resolves with: the literal \<open>null\<close>, on which reading any property throws,
  or a value whose properties can be read. A number, a string, a boolean or an array reads
  as an object that has neither field.
\<close>

datatype json_value = JsonNull | JsonObject json_object

text \<open>
  A response: \<open>ok\<close>, the \<open>content-type\<close> header (\<open>None\<close> when absent), the bytes
  \<open>arrayBuffer()\<close> resolves with, and what \<open>json()\<close> does: it rejects (\<open>Inl\<close>) on a body
  that is not JSON and resolves with the parsed value otherwise. Reading the body as
  bytes or text is taken to succeed.
\<close>

record response =
  ok :: bool
  content_type :: "string option"
  arrayBuffer :: bytes
  json :: "thrown + json_value"

text \<open>
  The world outside the handler: \<open>fetch\<close>, which rejects (\<open>Inl\<close>) or resolves with a
  response, and Node's \<open>Buffer.toString("base64")\<close>.
\<close>

record env =
  fetch :: "request \<Rightarrow> thrown + response"
  base64 :: "bytes \<Rightarrow> string"

text \<open>
  A handler's run is the list of requests it issued, in order, with how it ended: a
  thrown value (\<open>Inl\<close>) or a value.
\<close>

type_synonym 'a run = "request list \<times> (thrown + 'a)"

definition return :: "'a \<Rightarrow> 'a run" where
  "return x = ([], Inr x)"

definition throw :: "thrown \<Rightarrow> 'a run" where
  "throw e = ([], Inl e)"

definition await :: "(thrown + 'a) \<Rightarrow> 'a run" where
  "await r = ([], r)"

definition do_fetch :: "env \<Rightarrow> request \<Rightarrow> response run" where
  "do_fetch e r = ([r], fetch e r)"

definition bind :: "'a run \<Rightarrow> ('a \<Rightarrow> 'b run) \<Rightarrow> 'b run" where
  "bind m f =
     (case m of
        (t, Inl e) \<Rightarrow> (t, Inl e)
      | (t, Inr x) \<Rightarrow> (case f x of (t', r) \<Rightarrow> (t @ t', r)))"

text \<open>\<open>String.prototype.includes\<close>: the search string occurs somewhere in the string.\<close>

fun string_includes :: "string \<Rightarrow> string \<Rightarrow> bool" where
  "string_includes [] searchString = (searchString = [])"
| "string_includes (c # cs) searchString =
     (take (length searchString) (c # cs) = searchString \<or> string_includes cs searchString)"

text \<open>\<open>contentType?.includes("application/json")\<close>, falsy when the header is absent.\<close>

definition is_json_content_type :: "string option \<Rightarrow> bool" where
  "is_json_content_type contentType =
     (case contentType of None \<Rightarrow> False | Some c \<Rightarrow> string_includes c ''application/json'')"

text \<open>
  The message of the \<open>TypeError\<close> thrown on reading property \<open>p\<close> of \<open>null\<close> or of
  \<open>undefined\<close>, in Node's wording.
\<close>

definition TypeError_reading :: "string \<Rightarrow> string \<Rightarrow> string" where
  "TypeError_reading v p =
     ''Cannot read properties of '' @ v @ '' (reading '' @ [CHR 0x27] @ p @ [CHR 0x27] @ '')''"

text \<open>\<open>errorData.message\<close>: throws on \<open>null\<close>, reads the field otherwise.\<close>

definition read_message :: "json_value \<Rightarrow> thrown + string option" where
  "read_message errorData =
     (case errorData of
        JsonNull \<Rightarrow> Inl (Error (TypeError_reading ''null'' ''message''))
      | JsonObject obj \<Rightarrow> Inr (message obj))"

text \<open>\<open>m || dflt\<close>: the default stands in for a missing or empty message.\<close>

definition message_or :: "string option \<Rightarrow> string \<Rightarrow> string" where
  "message_or m dflt =
     (case m of None \<Rightarrow> dflt | Some text \<Rightarrow> (if text = [] then dflt else text))"

text \<open>
  \<open>data.output.url\<close> and the like: reading \<open>output\<close> of \<open>null\<close> throws, and so does
  reading \<open>url\<close> of a missing \<open>output\<close>.
\<close>

definition get_output :: "json_value \<Rightarrow> thrown + tinypng_output" where
  "get_output data =
     (case data of
        JsonNull \<Rightarrow> Inl (Error (TypeError_reading ''null'' ''output''))
      | JsonObject obj \<Rightarrow>
          (case output_field obj of
             None \<Rightarrow> Inl (Error (TypeError_reading ''undefined'' ''url''))
           | Some out \<Rightarrow> Inr out))"

text \<open>
  A number a handler puts into its result: finite, or what a division by zero leaves
  (\<open>0 / 0\<close> is \<open>NaN\<close>, a negative number over zero is \<open>-Infinity\<close>; neither changes under
  \<open>* 100\<close> or \<open>Math.round\<close>).
\<close>

datatype number = Number int | NaN | NegInfinity

text \<open>
  The two metrics, written the same way at every place that builds a result:
  \<^verbatim>\<open>
  savedBytes: Math.max(0, original - compressed),
  compressionRatio: Math.round(((original - compressed) / original) * 100),
  \<close>
  with \<open>original\<close> and \<open>compressed\<close> two byte lengths. The quotient is taken exactly
  here. The code's double quotient can fall just below an exact half, where the code then
  rounds one lower than this definition: for 40 and 17 bytes the exact percentage is 57.5
  and the double is 57.49999999999999. Where the exact quotient is itself a double, as
  \<open>-1/2\<close> for 100 and 150 bytes, the code computes the exact value.
\<close>

definition savedBytes_of :: "nat \<Rightarrow> nat \<Rightarrow> int" where
  "savedBytes_of original compressed = max 0 (int original - int compressed)"

definition compressionRatio_of :: "nat \<Rightarrow> nat \<Rightarrow> number" where
  "compressionRatio_of original compressed =
     (if original = 0 then (if compressed = 0 then NaN else NegInfinity)
      else Number (Math_round ((of_int (int original - int compressed) / of_nat original) * 100)))"

record CompressionResult =
  success :: bool
  originalSize :: int
  compressedSize :: int
  savedBytes :: int
  compressionRatio :: number
  compressedImage :: string
  originalType :: mime
  outputType :: mime

definition data_uri :: "env \<Rightarrow> mime \<Rightarrow> bytes \<Rightarrow> string" where
  "data_uri e m b = ''data:'' @ mime_string m @ '';base64,'' @ base64 e b"

definition shrink_url :: string where
  "shrink_url = ''https://api.tinify.com/shrink''"

section \<open>The tRPC procedure \<open>compress\<close>\<close>

record compression_options =
  quality :: "real option"
  preserveMetadata :: "bool option"
  options_resize :: "resize_options option"
  convertAutomatically :: "bool option"

text \<open>The input after validation by \<open>compressionSchema\<close>; the route handler's schema has no options.\<close>

record compression_input =
  imageUrl :: string
  filename :: string
  mimeType :: mime
  outputFormat :: mime
  options :: "compression_options option"

definition plain_get :: "string \<Rightarrow> request" where
  "plain_get u = \<lparr>req_url = u, req_method = GET, req_body = NoBody,
                  req_content_type = None, req_authorization = False\<rparr>"

definition authorized_get :: "string \<Rightarrow> request" where
  "authorized_get u = \<lparr>req_url = u, req_method = GET, req_body = NoBody,
                       req_content_type = None, req_authorization = True\<rparr>"

definition shrink_request :: "bytes \<Rightarrow> mime \<Rightarrow> request" where
  "shrink_request imageBuffer m =
     \<lparr>req_url = shrink_url, req_method = POST, req_body = RawBody imageBuffer,
      req_content_type = Some (mime_string m), req_authorization = True\<rparr>"

definition convert_request :: "string \<Rightarrow> TinyPNGOptions \<Rightarrow> request" where
  "convert_request u apiOptions =
     \<lparr>req_url = u, req_method = POST, req_body = JsonBody apiOptions,
      req_content_type = Some ''application/json'', req_authorization = True\<rparr>"

text \<open>
  From \<open>fetch(finalUrl)\<close> to \<open>return result\<close>. The locals \<open>originalSize\<close>,
  \<open>compressedSize\<close>, \<open>savedBytes\<close> and \<open>compressionRatio\<close> computed before the result
  object are never read and are left out.
\<close>

definition compress_finish :: "env \<Rightarrow> compression_input \<Rightarrow> bytes \<Rightarrow> string \<Rightarrow> CompressionResult run" where
  "compress_finish e input imageBuffer finalUrl =
     bind (do_fetch e (plain_get finalUrl)) (\<lambda>compressedImageResponse.
       if \<not> ok compressedImageResponse
       then throw (TRPCError INTERNAL_SERVER_ERROR ''Failed to fetch compressed image'')
       else
         (let compressedImageBuffer = arrayBuffer compressedImageResponse;
              result =
                \<lparr>success = True,
                 originalSize = int (length imageBuffer),
                 compressedSize = int (length compressedImageBuffer),
                 savedBytes = savedBytes_of (length imageBuffer) (length compressedImageBuffer),
                 compressionRatio = compressionRatio_of (length imageBuffer) (length compressedImageBuffer),
                 compressedImage = data_uri e (outputFormat input) compressedImageBuffer,
                 originalType = mimeType input,
                 outputType = outputFormat input\<rparr>
          in if compressedImage result = []
             then throw (TRPCError INTERNAL_SERVER_ERROR ''Failed to generate compressed image'')
             else return result))"

text \<open>
  The options object sent with a conversion:
  \<^verbatim>\<open>
  const apiOptions = {
    resize: input.options?.resize,
    preserve: input.options?.preserveMetadata ? ["copyright", "creation", "location"] : [],
  };
  if (input.outputFormat !== input.mimeType) apiOptions.convert = { type: input.outputFormat };
  \<close>
\<close>

definition apiOptions_of :: "compression_input \<Rightarrow> TinyPNGOptions" where
  "apiOptions_of input =
     \<lparr>resize = (case options input of None \<Rightarrow> None | Some opts \<Rightarrow> options_resize opts),
      preserve =
        (if (case options input of None \<Rightarrow> None | Some opts \<Rightarrow> preserveMetadata opts) = Some True
         then [''copyright'', ''creation'', ''location''] else []),
      convert =
        (if outputFormat input \<noteq> mimeType input then Some (outputFormat input) else None)\<rparr>"

text \<open>The options of the route handler's conversion call.\<close>

definition POST_apiOptions :: "compression_input \<Rightarrow> TinyPNGOptions" where
  "POST_apiOptions validatedInput =
     \<lparr>resize = None,
      preserve = [''copyright'', ''creation'', ''location''],
      convert = Some (outputFormat validatedInput)\<rparr>"

text \<open>The body of the procedure's \<open>try\<close> block.\<close>

definition compress_try :: "env \<Rightarrow> compression_input \<Rightarrow> CompressionResult run" where
  "compress_try e input =
     bind (do_fetch e (plain_get (imageUrl input))) (\<lambda>imageResponse.
       if \<not> ok imageResponse then throw (Error ''Failed to fetch image from URL'')
       else
         (let imageBuffer = arrayBuffer imageResponse;
              apiOptions = apiOptions_of input
          in
          bind (do_fetch e (shrink_request imageBuffer (mimeType input))) (\<lambda>response.
            if \<not> ok response then
              bind (await (json response)) (\<lambda>errorData.
              bind (await (read_message errorData)) (\<lambda>m.
                throw (TRPCError BAD_REQUEST (message_or m ''Failed to compress image''))))
            else
              bind (await (json response)) (\<lambda>data.
              bind (await (get_output data)) (\<lambda>out.
                (case convert apiOptions of
                   None \<Rightarrow> compress_finish e input imageBuffer (url out)
                 | Some _ \<Rightarrow>
                     bind (do_fetch e (convert_request (url out) apiOptions)) (\<lambda>convertResponse.
                       if \<not> ok convertResponse
                       then throw (TRPCError BAD_REQUEST ''Failed to convert image format'')
                       else if is_json_content_type (content_type convertResponse) then
                         bind (await (json convertResponse)) (\<lambda>convertData.
                         bind (await (get_output convertData)) (\<lambda>convertOut.
                           compress_finish e input imageBuffer (url convertOut)))
                       else
                         (let convertedBuffer = arrayBuffer convertResponse
                          in return
                               \<lparr>success = True,
                                originalSize = int (length convertedBuffer),
                                compressedSize = int (length convertedBuffer),
                                savedBytes = 0,
                                compressionRatio = Number 0,
                                compressedImage = data_uri e (outputFormat input) convertedBuffer,
                                originalType = mimeType input,
                                outputType = outputFormat input\<rparr>))))))))"

text \<open>
  The procedure: the \<open>catch\<close> rethrows a \<open>TRPCError\<close> as it is and wraps anything else
  into an \<open>INTERNAL_SERVER_ERROR\<close>.
\<close>

definition compress :: "env \<Rightarrow> compression_input \<Rightarrow> CompressionResult run" where
  "compress e input =
     (case compress_try e input of
        (t, Inr result) \<Rightarrow> (t, Inr result)
      | (t, Inl (TRPCError c m)) \<Rightarrow> (t, Inl (TRPCError c m))
      | (t, Inl (Error m)) \<Rightarrow> (t, Inl (TRPCError INTERNAL_SERVER_ERROR m))
      | (t, Inl NotAnError) \<Rightarrow> (t, Inl (TRPCError INTERNAL_SERVER_ERROR ''Failed to compress image'')))"

section \<open>The route handler \<open>POST\<close>\<close>

text \<open>What \<open>NextResponse.json\<close> sends: a status (200 unless given) and a JSON body.\<close>

datatype response_body = ErrorBody string | ResultBody CompressionResult

record NextResponse =
  status :: nat
  response_body :: response_body

definition error_response :: "nat \<Rightarrow> string \<Rightarrow> NextResponse" where
  "error_response st m = \<lparr>status = st, response_body = ErrorBody m\<rparr>"

text \<open>
  \<open>sizeRatio < 0.8\<close> with \<open>sizeRatio = final / original\<close>: over a zero \<open>original\<close> the
  quotient is \<open>Infinity\<close> or \<open>NaN\<close> and the comparison is false.
\<close>

definition sizeRatio_below :: "nat \<Rightarrow> nat \<Rightarrow> bool" where
  "sizeRatio_below final original =
     (original \<noteq> 0 \<and> (of_nat final / of_nat original :: real) < 8 / 10)"

definition POST_result :: "env \<Rightarrow> nat \<Rightarrow> bytes \<Rightarrow> mime \<Rightarrow> mime \<Rightarrow> NextResponse" where
  "POST_result e original final sourceMime outputMime =
     \<lparr>status = 200,
      response_body = ResultBody
        \<lparr>success = True,
         originalSize = int original,
         compressedSize = int (length final),
         savedBytes = savedBytes_of original (length final),
         compressionRatio = compressionRatio_of original (length final),
         compressedImage = data_uri e outputMime final,
         originalType = sourceMime,
         outputType = outputMime\<rparr>\<rparr>"

text \<open>
  The conversion branch's \<open>finalImageBuffer\<close>: fetched through the descriptor's URL when
  the conversion answered with JSON (an early error response, \<open>Inl\<close>, when that fetch is
  not ok), the conversion's own body otherwise.
\<close>

definition POST_final_buffer :: "env \<Rightarrow> response \<Rightarrow> (NextResponse + bytes) run" where
  "POST_final_buffer e convertResponse =
     (if is_json_content_type (content_type convertResponse) then
        bind (await (json convertResponse)) (\<lambda>convertData.
        bind (await (get_output convertData)) (\<lambda>convertOut.
        bind (do_fetch e (authorized_get (url convertOut))) (\<lambda>imageResponse.
          if \<not> ok imageResponse
          then return (Inl (error_response 400 ''Failed to fetch converted image''))
          else return (Inr (arrayBuffer imageResponse)))))
      else return (Inr (arrayBuffer convertResponse)))"

text \<open>The body of the handler's \<open>try\<close> block, from the validated input on.\<close>

definition POST_try :: "env \<Rightarrow> compression_input \<Rightarrow> NextResponse run" where
  "POST_try e validatedInput =
     bind (do_fetch e (plain_get (imageUrl validatedInput))) (\<lambda>imageResponse.
       if \<not> ok imageResponse then return (error_response 400 ''Failed to fetch image'')
       else
         (let imageBuffer = arrayBuffer imageResponse in
          bind (do_fetch e (shrink_request imageBuffer (mimeType validatedInput))) (\<lambda>response.
            if \<not> ok response then
              bind (await (json response)) (\<lambda>errorData.
              bind (await (read_message errorData)) (\<lambda>m.
                return (error_response 400 (message_or m ''Failed to compress image''))))
            else
              bind (await (json response)) (\<lambda>data.
                if outputFormat validatedInput \<noteq> mimeType validatedInput then
                  (let apiOptions = POST_apiOptions validatedInput
                   in
                   bind (await (get_output data)) (\<lambda>out.
                   bind (do_fetch e (convert_request (url out) apiOptions)) (\<lambda>convertResponse.
                     if \<not> ok convertResponse
                     then return (error_response 400 ''Failed to convert image format'')
                     else
                       bind (POST_final_buffer e convertResponse) (\<lambda>final.
                         (case final of
                            Inl early \<Rightarrow> return early
                          | Inr finalImageBuffer \<Rightarrow>
                              if outputFormat validatedInput = image_png
                                 \<and> sizeRatio_below (length finalImageBuffer) (length imageBuffer)
                              then return (error_response 400
                                     ''PNG conversion resulted in unexpected quality loss'')
                              else return (POST_result e (length imageBuffer) finalImageBuffer
                                     (mimeType validatedInput) (outputFormat validatedInput)))))))
                else
                  bind (await (get_output data)) (\<lambda>out.
                  bind (do_fetch e (authorized_get (url out))) (\<lambda>compressedImageResponse.
                    if \<not> ok compressedImageResponse
                    then return (error_response 400 ''Failed to fetch compressed image'')
                    else return (POST_result e (length imageBuffer)
                           (arrayBuffer compressedImageResponse)
                           (mimeType validatedInput) (mimeType validatedInput))))))))"

text \<open>The handler: its \<open>catch\<close> turns every throw into a response with status 500.\<close>

definition POST_handler :: "env \<Rightarrow> compression_input \<Rightarrow> request list \<times> NextResponse" where
  "POST_handler e validatedInput =
     (case POST_try e validatedInput of
        (t, Inr resp) \<Rightarrow> (t, resp)
      | (t, Inl (Error m)) \<Rightarrow> (t, error_response 500 m)
      | (t, Inl (TRPCError c m)) \<Rightarrow> (t, error_response 500 m)
      | (t, Inl NotAnError) \<Rightarrow> (t, error_response 500 ''Failed to process image''))"

text \<open>A phase-2 call is a request that carries conversion options.\<close>

definition is_convert_call :: "request \<Rightarrow> bool" where
  "is_convert_call r = (case req_body r of JsonBody _ \<Rightarrow> True | _ \<Rightarrow> False)"

section \<open>Sample inputs\<close>

definition small_file :: File where
  "small_file = \<lparr>content = [1, 2, 3], name = ''icon.png'', type = ''image/png''\<rparr>"

definition big_file :: File where
  "big_file = \<lparr>content = replicate (5 * 1024 * 1024 + 1) 0, name = ''photo.jpg'', type = ''image/jpeg''\<rparr>"

text \<open>A browser that cannot decode the image.\<close>

definition broken_browser :: browser where
  "broken_browser =
     \<lparr>createImageBitmap = (\<lambda>f. Inl (Error ''The source image could not be decoded'')),
      getContext = (\<lambda>w h. Inr True),
      drawImage = (\<lambda>f w h. Inr ()),
      toBlob = (\<lambda>f w h t q. Inr None),
      convertToBlob = (\<lambda>f w h t q. Inl (Error ''Encoding failed''))\<rparr>"

text \<open>
  A scripted service: the source image, the shrink call's answer, the conversion call's
  answer, and the bytes behind the two locations.
\<close>

definition source_url :: string where
  "source_url = ''https://blob.example/source''"

definition shrunk_url :: string where
  "shrunk_url = ''https://api.tinify.com/output/shrunk''"

definition converted_url :: string where
  "converted_url = ''https://api.tinify.com/output/converted''"

definition bytes_response :: "string \<Rightarrow> nat \<Rightarrow> response" where
  "bytes_response ct n =
     \<lparr>ok = True, content_type = Some ct, arrayBuffer = replicate n 0,
      json = Inl (Error ''Unexpected token in JSON'')\<rparr>"

definition descriptor_response :: "string \<Rightarrow> nat \<Rightarrow> response" where
  "descriptor_response u n =
     \<lparr>ok = True, content_type = Some ''application/json; charset=utf-8'', arrayBuffer = [],
      json = Inr (JsonObject \<lparr>message = None,
                  output_field = Some \<lparr>url = u, output_size = int n, output_type = ''image/png''\<rparr>\<rparr>)\<rparr>"

definition gateway_error_response :: response where
  "gateway_error_response =
     \<lparr>ok = False, content_type = Some ''text/html'', arrayBuffer = [],
      json = Inl (Error ''Unexpected token in JSON'')\<rparr>"

definition rejection_response :: "string option \<Rightarrow> response" where
  "rejection_response m =
     \<lparr>ok = False, content_type = Some ''application/json'', arrayBuffer = [],
      json = Inr (JsonObject \<lparr>message = m, output_field = None\<rparr>)\<rparr>"

definition null_rejection_response :: response where
  "null_rejection_response =
     \<lparr>ok = False, content_type = Some ''application/json'', arrayBuffer = [],
      json = Inr JsonNull\<rparr>"

definition scripted_env :: "response \<Rightarrow> response \<Rightarrow> response \<Rightarrow> response \<Rightarrow> response \<Rightarrow> env" where
  "scripted_env source shrunk conversion shrunk_bytes converted_bytes =
     \<lparr>fetch = (\<lambda>r.
        if req_method r = POST then (if req_url r = shrink_url then Inr shrunk else Inr conversion)
        else if req_url r = source_url then Inr source
        else if req_url r = shrunk_url then Inr shrunk_bytes
        else Inr converted_bytes),
      base64 = (\<lambda>b. replicate (length b) CHR ''A'')\<rparr>"

definition same_format_input :: compression_input where
  "same_format_input =
     \<lparr>imageUrl = source_url, filename = ''a.png'', mimeType = image_png,
      outputFormat = image_png, options = None\<rparr>"

definition to_png_input :: compression_input where
  "to_png_input =
     \<lparr>imageUrl = source_url, filename = ''a.webp'', mimeType = image_webp,
      outputFormat = image_png, options = None\<rparr>"

definition growth_env :: env where
  "growth_env = scripted_env (bytes_response ''image/png'' 100) (descriptor_response shrunk_url 150)
                  gateway_error_response (bytes_response ''image/png'' 150) (bytes_response ''image/png'' 150)"

definition binary_env :: env where
  "binary_env = scripted_env (bytes_response ''image/webp'' 100) (descriptor_response shrunk_url 60)
                  (bytes_response ''image/png'' 90) (bytes_response ''image/webp'' 60)
                  (bytes_response ''image/png'' 90)"

definition suspect_env :: env where
  "suspect_env = scripted_env (bytes_response ''image/webp'' 100) (descriptor_response shrunk_url 60)
                  (descriptor_response converted_url 10) (bytes_response ''image/webp'' 60)
                  (bytes_response ''image/png'' 10)"

definition gateway_env :: env where
  "gateway_env = scripted_env (bytes_response ''image/png'' 100) gateway_error_response
                  gateway_error_response gateway_error_response gateway_error_response"

definition rejecting_env :: env where
  "rejecting_env = scripted_env (bytes_response ''image/png'' 100)
                  (rejection_response (Some ''Unsupported media type''))
                  gateway_error_response gateway_error_response gateway_error_response"

definition null_env :: env where
  "null_env = scripted_env (bytes_response ''image/png'' 100) null_rejection_response
                  gateway_error_response gateway_error_response gateway_error_response"

definition shrink_env :: env where
  "shrink_env = scripted_env (bytes_response ''image/png'' 100) (descriptor_response shrunk_url 60)
                  gateway_error_response (bytes_response ''image/png'' 60) (bytes_response ''image/png'' 60)"

text \<open>The ratio as the specification words it: \<open>round(savedBytes / originalSize * 100)\<close>.\<close>

definition spec_compressionRatio :: "nat \<Rightarrow> nat \<Rightarrow> int" where
  "spec_compressionRatio original compressed =
     Math_round ((of_int (savedBytes_of original compressed) / of_nat original) * 100)"

section \<open>Properties of the preprocessor\<close>

lemma Math_round_le:
  assumes "x \<le> of_int n"
  shows "Math_round x \<le> n"
proof -
  have "x + 1 / 2 < of_int (n + 1)" using assms by simp
  then have "\<lfloor>x + 1 / 2\<rfloor> < n + 1" by (simp only: floor_less_iff)
  then show ?thesis by (simp add: Math_round_def)
qed

lemma Math_round_near: "\<bar>of_int (Math_round x) - x\<bar> \<le> 1 / 2"
proof -
  have "of_int \<lfloor>x + 1 / 2\<rfloor> \<le> x + 1 / 2" by (rule of_int_floor_le)
  moreover have "x + 1 / 2 < of_int \<lfloor>x + 1 / 2\<rfloor> + 1" by linarith
  ultimately show ?thesis unfolding Math_round_def by linarith
qed

lemma scaled_side_le:
  assumes "a \<le> b" and "0 < b"
  shows "Math_round ((of_nat a / of_nat b) * of_nat maxDim) \<le> int maxDim"
proof -
  have "(of_nat a :: real) / of_nat b \<le> 1" using assms by simp
  then have "((of_nat a :: real) / of_nat b) * of_nat maxDim \<le> 1 * of_nat maxDim"
    by (rule mult_right_mono) simp
  then have "((of_nat a :: real) / of_nat b) * of_nat maxDim \<le> of_int (int maxDim)" by simp
  then show ?thesis by (rule Math_round_le)
qed

text \<open>
  C4. A file of at most 5 MiB (\<open>5 * 1024 * 1024\<close> bytes) comes back as it is, bytes, name
  and MIME type, from the page's preprocessor and from the worker's, whatever the browser
  API would answer: no decode and no encode takes part in the result.
\<close>

theorem small_file_unchanged:
  assumes "file_size f \<le> 5 * 1024 * 1024"
  shows "preprocessImage env f = f \<and> worker_preprocessImage env f = Inr f
         \<and> onmessage env f = Processed f"
  using assms by (simp add: preprocessImage_def worker_preprocessImage_def onmessage_def)

theorem small_file_unchanged_witness:
  "file_size small_file \<le> 5 * 1024 * 1024
   \<and> preprocessImage broken_browser small_file = small_file
   \<and> worker_preprocessImage broken_browser small_file = Inr small_file
   \<and> onmessage broken_browser small_file = Processed small_file"
  using small_file_unchanged [of small_file broken_browser]
  by (simp add: small_file_def file_size_def)

text \<open>
  C5. When a side of the decoded image exceeds 2048, the new size has its longer side at
  2048 (the width when the image is wider than high, the height otherwise) and its shorter
  side at \<open>Math.round(shorter / longer * 2048)\<close>, which is within one half of the exact
  scaled length, so the larger of the two new sides is 2048; when both sides are at most
  2048 the size is left as it is.
\<close>

theorem target_dimensions_scaled:
  "(maxDim < w \<or> maxDim < h \<longrightarrow>
      (case target_dimensions w h of (w', h') \<Rightarrow>
         max w' h' = 2048
         \<and> min w' h' = Math_round ((of_nat (min w h) / of_nat (max w h)) * 2048)
         \<and> (if h < w then w' = 2048 else h' = 2048)
         \<and> \<bar>of_int (min w' h') - (of_nat (min w h) / of_nat (max w h)) * 2048\<bar> \<le> (1 / 2 :: real)))
   \<and> (w \<le> maxDim \<and> h \<le> maxDim \<longrightarrow> target_dimensions w h = (int w, int h))"
proof (intro conjI impI)
  assume big: "maxDim < w \<or> maxDim < h"
  show "case target_dimensions w h of (w', h') \<Rightarrow>
         max w' h' = 2048
         \<and> min w' h' = Math_round ((of_nat (min w h) / of_nat (max w h)) * 2048)
         \<and> (if h < w then w' = 2048 else h' = 2048)
         \<and> \<bar>of_int (min w' h') - (of_nat (min w h) / of_nat (max w h)) * 2048\<bar> \<le> (1 / 2 :: real)"
  proof (cases "h < w")
    case True
    then have le: "Math_round ((of_nat h / of_nat w) * of_nat maxDim) \<le> int maxDim"
      by (intro scaled_side_le) simp_all
    have mm: "min w h = h" "max w h = w" using True by simp_all
    have td: "target_dimensions w h = (int maxDim, Math_round ((of_nat h / of_nat w) * of_nat maxDim))"
      using big True by (simp add: target_dimensions_def)
    show ?thesis
      using le True Math_round_near [of "(of_nat h / of_nat w) * of_nat maxDim"]
      by (simp add: td mm maxDim_def min_def max_def)
  next
    case False
    then have hw: "w \<le> h" by simp
    with big have hpos: "0 < h" by (auto simp: maxDim_def)
    have le: "Math_round ((of_nat w / of_nat h) * of_nat maxDim) \<le> int maxDim"
      using hw hpos by (intro scaled_side_le) simp_all
    have mm: "min w h = w" "max w h = h" using hw by simp_all
    have td: "target_dimensions w h = (Math_round ((of_nat w / of_nat h) * of_nat maxDim), int maxDim)"
      using big False by (simp add: target_dimensions_def)
    show ?thesis
      using le False Math_round_near [of "(of_nat w / of_nat h) * of_nat maxDim"]
      by (simp add: td mm maxDim_def min_def max_def)
  qed
next
  assume "w \<le> maxDim \<and> h \<le> maxDim"
  then show "target_dimensions w h = (int w, int h)"
    by (simp add: target_dimensions_def)
qed

theorem target_dimensions_scaled_witness:
  "(maxDim < 4096 \<or> maxDim < 2048) \<and> target_dimensions 4096 2048 = (2048, 1024)
   \<and> (800 \<le> maxDim \<and> 600 \<le> maxDim) \<and> target_dimensions 800 600 = (800, 600)"
  using target_dimensions_scaled [of 4096 2048] target_dimensions_scaled [of 800 600]
  by (simp add: maxDim_def target_dimensions_def Math_round_def)

text \<open>
  C6, as stated, fails for the worker: on a file above 5 MiB that the browser cannot
  decode, the worker's \<open>preprocessImage\<close> rejects, and \<open>onmessage\<close> posts an object with
  the error's message instead of the file.
\<close>

theorem worker_failure_posts_error:
  "worker_preprocessImage broken_browser big_file
     = Inl (Error ''The source image could not be decoded'')
   \<and> onmessage broken_browser big_file = ErrorMessage ''The source image could not be decoded''
   \<and> onmessage broken_browser big_file \<noteq> Processed big_file"
proof -
  have sz: "\<not> file_size big_file \<le> 5 * 1024 * 1024"
    by (simp add: file_size_def big_file_def)
  have w: "worker_preprocessImage broken_browser big_file
       = Inl (Error ''The source image could not be decoded'')"
    using sz by (simp add: worker_preprocessImage_def broken_browser_def)
  then have m: "onmessage broken_browser big_file = ErrorMessage ''The source image could not be decoded''"
    by (simp add: onmessage_def)
  with w show ?thesis by simp
qed

text \<open>
  C6, amended. The page's \<open>preprocessImage\<close> is fail-open: it returns the file it was given
  unless the decode, the canvas context, the drawing and the encoding all succeeded, in
  which case it returns the encoded bytes under the file's name and MIME type; whenever its
  \<open>try\<close> block throws, the file it was given comes back. The worker's \<open>preprocessImage\<close>
  catches nothing: when it rejects, \<open>onmessage\<close> posts the error's message (or
  \<open>Unknown error\<close>) and no file.
\<close>

theorem preprocessImage_fail_open:
  "(preprocessImage env f = f
    \<or> (\<exists>w h b. 5 * 1024 * 1024 < file_size f
          \<and> createImageBitmap env f = Inr (w, h)
          \<and> getContext env (fst (target_dimensions w h)) (snd (target_dimensions w h)) = Inr True
          \<and> drawImage env f (fst (target_dimensions w h)) (snd (target_dimensions w h)) = Inr ()
          \<and> toBlob env f (fst (target_dimensions w h)) (snd (target_dimensions w h)) (type f) (8 / 10)
              = Inr (Some b)
          \<and> preprocessImage env f = \<lparr>content = b, name = name f, type = type f\<rparr>))
   \<and> (preprocessImage_try env f = Inl e \<longrightarrow> preprocessImage env f = f)
   \<and> (worker_preprocessImage env f = Inl e \<longrightarrow>
        onmessage env f = ErrorMessage
          (case e of Error m \<Rightarrow> m | TRPCError c m \<Rightarrow> m | NotAnError \<Rightarrow> ''Unknown error''))"
proof (intro conjI impI)
  show "preprocessImage env f = f
    \<or> (\<exists>w h b. 5 * 1024 * 1024 < file_size f
          \<and> createImageBitmap env f = Inr (w, h)
          \<and> getContext env (fst (target_dimensions w h)) (snd (target_dimensions w h)) = Inr True
          \<and> drawImage env f (fst (target_dimensions w h)) (snd (target_dimensions w h)) = Inr ()
          \<and> toBlob env f (fst (target_dimensions w h)) (snd (target_dimensions w h)) (type f) (8 / 10)
              = Inr (Some b)
          \<and> preprocessImage env f = \<lparr>content = b, name = name f, type = type f\<rparr>)"
    by (auto simp: preprocessImage_def preprocessImage_try_def
        split: sum.splits prod.splits bool.splits option.splits)
next
  assume "preprocessImage_try env f = Inl e"
  then show "preprocessImage env f = f" by (simp add: preprocessImage_def)
next
  assume "worker_preprocessImage env f = Inl e"
  then show "onmessage env f = ErrorMessage
          (case e of Error m \<Rightarrow> m | TRPCError c m \<Rightarrow> m | NotAnError \<Rightarrow> ''Unknown error'')"
    by (cases e) (simp_all add: onmessage_def)
qed

theorem preprocessImage_fail_open_witness:
  "preprocessImage_try broken_browser big_file = Inl (Error ''The source image could not be decoded'')
   \<and> preprocessImage broken_browser big_file = big_file
   \<and> worker_preprocessImage broken_browser big_file = Inl (Error ''The source image could not be decoded'')
   \<and> onmessage broken_browser big_file = ErrorMessage ''The source image could not be decoded''"
proof -
  have sz: "\<not> file_size big_file \<le> 5 * 1024 * 1024"
    by (simp add: file_size_def big_file_def)
  have t: "preprocessImage_try broken_browser big_file = Inl (Error ''The source image could not be decoded'')"
    by (simp add: preprocessImage_try_def broken_browser_def)
  have w: "worker_preprocessImage broken_browser big_file
       = Inl (Error ''The source image could not be decoded'')"
    using sz by (simp add: worker_preprocessImage_def broken_browser_def)
  show ?thesis
    using preprocessImage_fail_open [of broken_browser big_file "Error ''The source image could not be decoded''"] t w
    by simp
qed

section \<open>Properties of the progress estimation\<close>

lemma animate_progress_le: "animate_progress e \<le> 95"
  by (simp add: animate_progress_def)

lemma animate_progress_mono: "e1 \<le> e2 \<Longrightarrow> animate_progress e1 \<le> animate_progress e2"
  by (simp add: animate_progress_def duration_def min_def)

lemma updateProgress_progress_le: "updateProgress_progress e \<le> 99"
  by (simp add: updateProgress_progress_def targetProgress_def)

lemma updateProgress_progress_mono:
  "e1 \<le> e2 \<Longrightarrow> updateProgress_progress e1 \<le> updateProgress_progress e2"
  by (simp add: updateProgress_progress_def minTime_def targetProgress_def min_def)

lemma page_step_capped:
  assumes "progress st \<le> 95" and "ev \<noteq> Success"
  shows "progress (page_step st ev) \<le> 95"
  using assms by (cases ev) (simp_all add: animate_def Let_def animate_progress_le onError_def)

lemma page_foldl_capped:
  "progress st \<le> 95 \<Longrightarrow> Success \<notin> set events \<Longrightarrow> progress (foldl page_step st events) \<le> 95"
proof (induction events arbitrary: st)
  case Nil
  then show ?case by simp
next
  case (Cons ev events)
  then have "progress (page_step st ev) \<le> 95" by (intro page_step_capped) auto
  with Cons show ?case by simp
qed

lemma fetch_page_step_capped:
  assumes "progress st \<le> 99" and "ev \<noteq> Success"
  shows "progress (fetch_page_step t0 st ev) \<le> 99"
  using assms by (cases ev) (simp_all add: updateProgress_def Let_def updateProgress_progress_le onError_def)

lemma fetch_page_foldl_capped:
  "progress st \<le> 99 \<Longrightarrow> Success \<notin> set events \<Longrightarrow>
   progress (foldl (fetch_page_step t0) st events) \<le> 99"
proof (induction events arbitrary: st)
  case Nil
  then show ?case by simp
next
  case (Cons ev events)
  then have "progress (fetch_page_step t0 st ev) \<le> 99" by (intro fetch_page_step_capped) auto
  with Cons show ?case by simp
qed

text \<open>
  C8. The value set while the compressing stage is in flight is a non-decreasing function
  of the elapsed time and never exceeds its cap, 95 in the first page variant and 99 in the
  second, both below 100: after any sequence of animation frames and failures that holds no
  success, the progress is at most the cap. The success callback is what sets it to 100.
\<close>

theorem synthetic_progress_capped:
  "(e1 \<le> e2 \<longrightarrow> animate_progress e1 \<le> animate_progress e2)
   \<and> animate_progress e \<le> 95
   \<and> (e1 \<le> e2 \<longrightarrow> updateProgress_progress e1 \<le> updateProgress_progress e2)
   \<and> updateProgress_progress e \<le> 99
   \<and> (Success \<notin> set events \<longrightarrow> progress (page_run events) \<le> 95)
   \<and> (Success \<notin> set events \<and> uploaded \<le> 30 \<longrightarrow>
        progress (fetch_page_run startTime uploaded events) \<le> 99)
   \<and> progress (onSuccess st) = 100"
proof (intro conjI impI)
  show "animate_progress e \<le> 95" by (rule animate_progress_le)
  show "updateProgress_progress e \<le> 99" by (rule updateProgress_progress_le)
  show "progress (onSuccess st) = 100" by (simp add: onSuccess_def)
next
  assume "e1 \<le> e2"
  then show "animate_progress e1 \<le> animate_progress e2" by (rule animate_progress_mono)
next
  assume "e1 \<le> e2"
  then show "updateProgress_progress e1 \<le> updateProgress_progress e2"
    by (rule updateProgress_progress_mono)
next
  assume "Success \<notin> set events"
  then show "progress (page_run events) \<le> 95"
    unfolding page_run_def by (intro page_foldl_capped) (simp_all add: compressing_start_def)
next
  assume "Success \<notin> set events \<and> uploaded \<le> 30"
  then show "progress (fetch_page_run startTime uploaded events) \<le> 99"
    unfolding fetch_page_run_def by (intro fetch_page_foldl_capped) simp_all
qed

theorem synthetic_progress_capped_witness:
  "(1000 :: real) \<le> 2000 \<and> animate_progress 1000 \<le> animate_progress 2000
   \<and> animate_progress 6000 = 95
   \<and> updateProgress_progress 1000 \<le> updateProgress_progress 2000
   \<and> updateProgress_progress 30000 = 99
   \<and> Success \<notin> set [Frame 10, Frame 1510, Frame 9000, Failure]
   \<and> progress (page_run [Frame 10, Frame 1510, Frame 9000, Failure]) \<le> 95
   \<and> (30 :: real) \<le> 30
   \<and> progress (fetch_page_run 500 30 [Frame 600, Frame 25000]) \<le> 99
   \<and> progress (onSuccess (page_run [Frame 10])) = 100"
  using synthetic_progress_capped [of 1000 2000 6000 "[Frame 10, Frame 1510, Frame 9000, Failure]" 30 500 "page_run [Frame 10]"]
    synthetic_progress_capped [of 1000 2000 30000 "[Frame 600, Frame 25000]" 30 500 "page_run [Frame 10]"]
  by (simp add: animate_progress_def updateProgress_progress_def duration_def minTime_def targetProgress_def)

section \<open>Properties of the two handlers\<close>

lemmas run_defs = bind_def return_def throw_def await_def do_fetch_def

lemmas request_defs = plain_get_def authorized_get_def shrink_request_def convert_request_def

lemmas sample_defs = scripted_env_def bytes_response_def descriptor_response_def
  gateway_error_response_def source_url_def shrunk_url_def
  shrink_url_def same_format_input_def to_png_input_def

lemma fst_compress: "fst (compress e input) = fst (compress_try e input)"
  by (simp add: compress_def split: prod.splits sum.splits thrown.splits)

lemma fst_POST_handler: "fst (POST_handler e input) = fst (POST_try e input)"
  by (simp add: POST_handler_def split: prod.splits sum.splits thrown.splits)

lemma compress_success_iff:
  "snd (compress e input) = Inr result \<longleftrightarrow> snd (compress_try e input) = Inr result"
  by (simp add: compress_def split: prod.splits sum.splits thrown.splits)

lemma not_convert_calls [simp]:
  "\<not> is_convert_call (plain_get u)"
  "\<not> is_convert_call (authorized_get u)"
  "\<not> is_convert_call (shrink_request b m)"
  by (simp_all add: is_convert_call_def request_defs)

lemma convert_none: "outputFormat input = mimeType input \<Longrightarrow> convert (apiOptions_of input) = None"
  by (simp add: apiOptions_of_def)

lemma compress_try_same_format:
  assumes "outputFormat input = mimeType input"
  shows "compress_try e input =
     bind (do_fetch e (plain_get (imageUrl input))) (\<lambda>imageResponse.
       if \<not> ok imageResponse then throw (Error ''Failed to fetch image from URL'')
       else
          bind (do_fetch e (shrink_request (arrayBuffer imageResponse) (mimeType input))) (\<lambda>response.
            if \<not> ok response then
              bind (await (json response)) (\<lambda>errorData.
              bind (await (read_message errorData)) (\<lambda>m.
                throw (TRPCError BAD_REQUEST (message_or m ''Failed to compress image''))))
            else
              bind (await (json response)) (\<lambda>data.
              bind (await (get_output data)) (\<lambda>out.
                compress_finish e input (arrayBuffer imageResponse) (url out)))))"
  by (simp add: compress_try_def convert_none [OF assms] Let_def cong: if_cong)

lemma POST_try_same_format:
  assumes "outputFormat input = mimeType input"
  shows "POST_try e input =
     bind (do_fetch e (plain_get (imageUrl input))) (\<lambda>imageResponse.
       if \<not> ok imageResponse then return (error_response 400 ''Failed to fetch image'')
       else
          bind (do_fetch e (shrink_request (arrayBuffer imageResponse) (mimeType input))) (\<lambda>response.
            if \<not> ok response then
              bind (await (json response)) (\<lambda>errorData.
              bind (await (read_message errorData)) (\<lambda>m.
                return (error_response 400 (message_or m ''Failed to compress image''))))
            else
              bind (await (json response)) (\<lambda>data.
                  bind (await (get_output data)) (\<lambda>out.
                  bind (do_fetch e (authorized_get (url out))) (\<lambda>compressedImageResponse.
                    if \<not> ok compressedImageResponse
                    then return (error_response 400 ''Failed to fetch compressed image'')
                    else return (POST_result e (length (arrayBuffer imageResponse))
                           (arrayBuffer compressedImageResponse)
                           (mimeType input) (mimeType input)))))))"
  using assms by (simp add: POST_try_def Let_def cong: if_cong)

lemma compress_same_format_trace:
  assumes "outputFormat input = mimeType input"
  shows "\<forall>r \<in> set (fst (compress_try e input)). \<not> is_convert_call r"
  unfolding compress_try_same_format [OF assms] compress_finish_def
  by (auto simp: run_defs Let_def split: sum.splits prod.splits if_splits)

lemma POST_same_format_trace:
  assumes "outputFormat input = mimeType input"
  shows "\<forall>r \<in> set (fst (POST_try e input)). \<not> is_convert_call r"
  unfolding POST_try_same_format [OF assms]
  by (auto simp: run_defs Let_def split: sum.splits prod.splits if_splits)

lemma compress_same_format_success:
  assumes "outputFormat input = mimeType input"
    and "snd (compress_try e input) = Inr result"
  shows "outputType result = originalType result
         \<and> (\<exists>imageResponse response data out.
               fetch e (plain_get (imageUrl input)) = Inr imageResponse
               \<and> fetch e (shrink_request (arrayBuffer imageResponse) (mimeType input)) = Inr response
               \<and> json response = Inr (JsonObject data) \<and> output_field data = Some out
               \<and> fst (compress_try e input) =
                    [plain_get (imageUrl input),
                     shrink_request (arrayBuffer imageResponse) (mimeType input),
                     plain_get (url out)])"
  using assms(2) unfolding compress_try_same_format [OF assms(1)] compress_finish_def
  by (auto simp: run_defs Let_def get_output_def assms(1) split: sum.splits prod.splits if_splits option.splits json_value.splits)

lemma POST_same_format_success:
  assumes "outputFormat input = mimeType input"
    and "snd (POST_try e input) = Inr resp"
    and "response_body resp = ResultBody result"
  shows "outputType result = originalType result
         \<and> (\<exists>imageResponse response data out.
               fetch e (plain_get (imageUrl input)) = Inr imageResponse
               \<and> fetch e (shrink_request (arrayBuffer imageResponse) (mimeType input)) = Inr response
               \<and> json response = Inr (JsonObject data) \<and> output_field data = Some out
               \<and> fst (POST_try e input) =
                    [plain_get (imageUrl input),
                     shrink_request (arrayBuffer imageResponse) (mimeType input),
                     authorized_get (url out)])"
  using assms(2,3) unfolding POST_try_same_format [OF assms(1)]
  by (auto simp: run_defs Let_def get_output_def POST_result_def error_response_def
      split: sum.splits prod.splits if_splits option.splits json_value.splits)

text \<open>
  C7. When \<open>outputFormat\<close> equals \<open>mimeType\<close>, neither the tRPC procedure nor the route
  handler issues a request that carries conversion options, whatever the service answers;
  and when either returns a result, its \<open>outputType\<close> equals its \<open>originalType\<close> and the
  requests issued were exactly the fetch of the source, the shrink call, and a GET of the
  location that the shrink response's descriptor names.
\<close>

theorem same_format_skips_conversion:
  assumes "outputFormat input = mimeType input"
  shows "(\<forall>r \<in> set (fst (compress e input)). \<not> is_convert_call r)
       \<and> (\<forall>r \<in> set (fst (POST_handler e input)). \<not> is_convert_call r)
       \<and> (\<forall>result. snd (compress e input) = Inr result \<longrightarrow>
             outputType result = originalType result
             \<and> (\<exists>imageResponse response data out.
                   fetch e (plain_get (imageUrl input)) = Inr imageResponse
                   \<and> fetch e (shrink_request (arrayBuffer imageResponse) (mimeType input)) = Inr response
                   \<and> json response = Inr (JsonObject data) \<and> output_field data = Some out
                   \<and> fst (compress e input) =
                        [plain_get (imageUrl input),
                         shrink_request (arrayBuffer imageResponse) (mimeType input),
                         plain_get (url out)]))
       \<and> (\<forall>result. response_body (snd (POST_handler e input)) = ResultBody result \<longrightarrow>
             outputType result = originalType result
             \<and> (\<exists>imageResponse response data out.
                   fetch e (plain_get (imageUrl input)) = Inr imageResponse
                   \<and> fetch e (shrink_request (arrayBuffer imageResponse) (mimeType input)) = Inr response
                   \<and> json response = Inr (JsonObject data) \<and> output_field data = Some out
                   \<and> fst (POST_handler e input) =
                        [plain_get (imageUrl input),
                         shrink_request (arrayBuffer imageResponse) (mimeType input),
                         authorized_get (url out)]))"
proof (intro conjI allI impI)
  show "\<forall>r \<in> set (fst (compress e input)). \<not> is_convert_call r"
    using compress_same_format_trace [OF assms] by (simp add: fst_compress)
  show "\<forall>r \<in> set (fst (POST_handler e input)). \<not> is_convert_call r"
    using POST_same_format_trace [OF assms] by (simp add: fst_POST_handler)
next
  fix result
  assume "snd (compress e input) = Inr result"
  then have ok: "snd (compress_try e input) = Inr result" by (simp add: compress_success_iff)
  from compress_same_format_success [OF assms ok]
  show "outputType result = originalType result" by simp
  from compress_same_format_success [OF assms ok]
  show "\<exists>imageResponse response data out.
          fetch e (plain_get (imageUrl input)) = Inr imageResponse
          \<and> fetch e (shrink_request (arrayBuffer imageResponse) (mimeType input)) = Inr response
          \<and> json response = Inr (JsonObject data) \<and> output_field data = Some out
          \<and> fst (compress e input) =
               [plain_get (imageUrl input),
                shrink_request (arrayBuffer imageResponse) (mimeType input),
                plain_get (url out)]"
    unfolding fst_compress by simp
next
  fix result
  assume r: "response_body (snd (POST_handler e input)) = ResultBody result"
  then obtain resp where ok: "snd (POST_try e input) = Inr resp"
    and body: "response_body resp = ResultBody result"
    by (auto simp: POST_handler_def error_response_def split: prod.splits sum.splits thrown.splits)
  from POST_same_format_success [OF assms ok body]
  show "outputType result = originalType result" by simp
  from POST_same_format_success [OF assms ok body]
  show "\<exists>imageResponse response data out.
          fetch e (plain_get (imageUrl input)) = Inr imageResponse
          \<and> fetch e (shrink_request (arrayBuffer imageResponse) (mimeType input)) = Inr response
          \<and> json response = Inr (JsonObject data) \<and> output_field data = Some out
          \<and> fst (POST_handler e input) =
               [plain_get (imageUrl input),
                shrink_request (arrayBuffer imageResponse) (mimeType input),
                authorized_get (url out)]"
    unfolding fst_POST_handler by simp
qed

lemma shrink_env_compress:
  "compress shrink_env same_format_input =
     ([plain_get source_url, shrink_request (replicate 100 0) image_png, plain_get shrunk_url],
      Inr \<lparr>success = True, originalSize = 100, compressedSize = 60, savedBytes = 40,
           compressionRatio = Number 40,
           compressedImage = data_uri shrink_env image_png (replicate 60 0),
           originalType = image_png, outputType = image_png\<rparr>)"
  by (simp add: compress_def compress_try_def compress_finish_def apiOptions_of_def shrink_env_def
        run_defs request_defs sample_defs get_output_def data_uri_def savedBytes_of_def
        compressionRatio_of_def Math_round_def Let_def)

lemma shrink_env_POST:
  "POST_handler shrink_env same_format_input =
     ([plain_get source_url, shrink_request (replicate 100 0) image_png, authorized_get shrunk_url],
      POST_result shrink_env 100 (replicate 60 0) image_png image_png)"
  by (simp add: POST_handler_def POST_try_def shrink_env_def
        run_defs request_defs sample_defs get_output_def Let_def)

theorem same_format_skips_conversion_witness:
  "outputFormat same_format_input = mimeType same_format_input
   \<and> filter is_convert_call (fst (compress shrink_env same_format_input)) = []
   \<and> filter is_convert_call (fst (POST_handler shrink_env same_format_input)) = []
   \<and> (\<exists>result. snd (compress shrink_env same_format_input) = Inr result
        \<and> outputType result = originalType result)
   \<and> fst (compress shrink_env same_format_input) =
        [plain_get source_url, shrink_request (replicate 100 0) image_png, plain_get shrunk_url]
   \<and> (\<exists>result. response_body (snd (POST_handler shrink_env same_format_input)) = ResultBody result
        \<and> outputType result = originalType result)"
proof -
  have same: "outputFormat same_format_input = mimeType same_format_input"
    by (simp add: same_format_input_def)
  from same_format_skips_conversion [OF same, of shrink_env]
  show ?thesis
    using same by (simp add: shrink_env_compress shrink_env_POST POST_result_def filter_empty_conv)
qed

lemma compress_binary_path:
  assumes "fetch e (plain_get (imageUrl input)) = Inr imageResponse"
    and "ok imageResponse"
    and "fetch e (shrink_request (arrayBuffer imageResponse) (mimeType input)) = Inr response"
    and "ok response"
    and "json response = Inr (JsonObject data)"
    and "output_field data = Some out"
    and "outputFormat input \<noteq> mimeType input"
    and "fetch e (convert_request (url out) (apiOptions_of input)) = Inr convertResponse"
    and "ok convertResponse"
    and "\<not> is_json_content_type (content_type convertResponse)"
  shows "compress e input =
           ([plain_get (imageUrl input),
             shrink_request (arrayBuffer imageResponse) (mimeType input),
             convert_request (url out) (apiOptions_of input)],
            Inr \<lparr>success = True,
                 originalSize = int (length (arrayBuffer convertResponse)),
                 compressedSize = int (length (arrayBuffer convertResponse)),
                 savedBytes = 0,
                 compressionRatio = Number 0,
                 compressedImage = data_uri e (outputFormat input) (arrayBuffer convertResponse),
                 originalType = mimeType input,
                 outputType = outputFormat input\<rparr>)"
proof -
  have c: "convert (apiOptions_of input) = Some (outputFormat input)"
    using assms(7) by (simp add: apiOptions_of_def)
  show ?thesis
    using assms c
    by (simp add: compress_def compress_try_def run_defs get_output_def Let_def)
qed

text \<open>
  C3. In the tRPC procedure, when the conversion was requested and answered with an ok
  response whose \<open>content-type\<close> header does not declare \<open>application/json\<close> (the header is
  absent or does not contain that string), the procedure returns a result with
  \<open>savedBytes = 0\<close> and \<open>compressionRatio = 0\<close>, whatever the sizes of the source and of the
  converted bytes, and the conversion call is the last request it issues.
\<close>

theorem binary_conversion_reports_zero:
  assumes "fetch e (plain_get (imageUrl input)) = Inr imageResponse"
    and "ok imageResponse"
    and "fetch e (shrink_request (arrayBuffer imageResponse) (mimeType input)) = Inr response"
    and "ok response"
    and "json response = Inr (JsonObject data)"
    and "output_field data = Some out"
    and "outputFormat input \<noteq> mimeType input"
    and "fetch e (convert_request (url out) (apiOptions_of input)) = Inr convertResponse"
    and "ok convertResponse"
    and "\<not> is_json_content_type (content_type convertResponse)"
  shows "\<exists>result. snd (compress e input) = Inr result
           \<and> savedBytes result = 0 \<and> compressionRatio result = Number 0
           \<and> last (fst (compress e input)) = convert_request (url out) (apiOptions_of input)"
  using compress_binary_path [OF assms] by simp

lemma binary_env_facts:
  "fetch binary_env (plain_get (imageUrl to_png_input)) = Inr (bytes_response ''image/webp'' 100)"
  "ok (bytes_response ''image/webp'' 100)"
  "fetch binary_env (shrink_request (arrayBuffer (bytes_response ''image/webp'' 100)) (mimeType to_png_input))
     = Inr (descriptor_response shrunk_url 60)"
  "ok (descriptor_response shrunk_url 60)"
  "json (descriptor_response shrunk_url 60)
     = Inr (JsonObject \<lparr>message = None,
            output_field = Some \<lparr>url = shrunk_url, output_size = 60, output_type = ''image/png''\<rparr>\<rparr>)"
  "outputFormat to_png_input \<noteq> mimeType to_png_input"
  "fetch binary_env (convert_request shrunk_url (apiOptions_of to_png_input))
     = Inr (bytes_response ''image/png'' 90)"
  "ok (bytes_response ''image/png'' 90)"
  "\<not> is_json_content_type (content_type (bytes_response ''image/png'' 90))"
  by (simp_all add: binary_env_def request_defs sample_defs is_json_content_type_def)

theorem binary_conversion_reports_zero_witness:
  "\<exists>result. snd (compress binary_env to_png_input) = Inr result
     \<and> savedBytes result = 0 \<and> compressionRatio result = Number 0
     \<and> last (fst (compress binary_env to_png_input))
         = convert_request shrunk_url (apiOptions_of to_png_input)"
  using binary_conversion_reports_zero [of binary_env to_png_input "bytes_response ''image/webp'' 100"
      "descriptor_response shrunk_url 60"
      "\<lparr>message = None,
        output_field = Some \<lparr>url = shrunk_url, output_size = 60, output_type = ''image/png''\<rparr>\<rparr>"
      "\<lparr>url = shrunk_url, output_size = 60, output_type = ''image/png''\<rparr>"
      "bytes_response ''image/png'' 90"]
    binary_env_facts
  by simp

text \<open>
  C10. On that same path the result's \<open>originalSize\<close> and \<open>compressedSize\<close> are both the
  byte length of the converted payload (the inner \<open>imageBuffer\<close> shadows the source's), so
  \<open>originalSize\<close> is not the byte length of the source image whenever the two lengths differ.
\<close>

theorem binary_conversion_sizes:
  assumes "fetch e (plain_get (imageUrl input)) = Inr imageResponse"
    and "ok imageResponse"
    and "fetch e (shrink_request (arrayBuffer imageResponse) (mimeType input)) = Inr response"
    and "ok response"
    and "json response = Inr (JsonObject data)"
    and "output_field data = Some out"
    and "outputFormat input \<noteq> mimeType input"
    and "fetch e (convert_request (url out) (apiOptions_of input)) = Inr convertResponse"
    and "ok convertResponse"
    and "\<not> is_json_content_type (content_type convertResponse)"
  shows "\<exists>result. snd (compress e input) = Inr result
           \<and> originalSize result = int (length (arrayBuffer convertResponse))
           \<and> compressedSize result = int (length (arrayBuffer convertResponse))
           \<and> (length (arrayBuffer convertResponse) \<noteq> length (arrayBuffer imageResponse)
                \<longrightarrow> originalSize result \<noteq> int (length (arrayBuffer imageResponse)))"
  using compress_binary_path [OF assms] by simp

theorem binary_conversion_sizes_witness:
  "length (arrayBuffer (bytes_response ''image/webp'' 100)) = 100
   \<and> (\<exists>result. snd (compress binary_env to_png_input) = Inr result
         \<and> originalSize result = 90 \<and> compressedSize result = 90
         \<and> originalSize result \<noteq> 100)"
  using binary_conversion_sizes [of binary_env to_png_input "bytes_response ''image/webp'' 100"
      "descriptor_response shrunk_url 60"
      "\<lparr>message = None,
        output_field = Some \<lparr>url = shrunk_url, output_size = 60, output_type = ''image/png''\<rparr>\<rparr>"
      "\<lparr>url = shrunk_url, output_size = 60, output_type = ''image/png''\<rparr>"
      "bytes_response ''image/png'' 90"]
    binary_env_facts
  by (simp add: bytes_response_def)

lemma compress_rejected_path:
  assumes "fetch e (plain_get (imageUrl input)) = Inr imageResponse"
    and "ok imageResponse"
    and "fetch e (shrink_request (arrayBuffer imageResponse) (mimeType input)) = Inr response"
    and "\<not> ok response"
  shows "compress e input =
           ([plain_get (imageUrl input), shrink_request (arrayBuffer imageResponse) (mimeType input)],
            (case json response of
               Inr (JsonObject errorData) \<Rightarrow>
                 Inl (TRPCError BAD_REQUEST (message_or (message errorData) ''Failed to compress image''))
             | Inr JsonNull \<Rightarrow>
                 Inl (TRPCError INTERNAL_SERVER_ERROR (TypeError_reading ''null'' ''message''))
             | Inl (TRPCError c m) \<Rightarrow> Inl (TRPCError c m)
             | Inl (Error m) \<Rightarrow> Inl (TRPCError INTERNAL_SERVER_ERROR m)
             | Inl NotAnError \<Rightarrow> Inl (TRPCError INTERNAL_SERVER_ERROR ''Failed to compress image'')))"
  using assms
  by (simp add: compress_def compress_try_def run_defs read_message_def Let_def
      split: sum.splits thrown.splits json_value.splits)

lemma POST_rejected_path:
  assumes "fetch e (plain_get (imageUrl input)) = Inr imageResponse"
    and "ok imageResponse"
    and "fetch e (shrink_request (arrayBuffer imageResponse) (mimeType input)) = Inr response"
    and "\<not> ok response"
  shows "POST_handler e input =
           ([plain_get (imageUrl input), shrink_request (arrayBuffer imageResponse) (mimeType input)],
            (case json response of
               Inr (JsonObject errorData) \<Rightarrow>
                 error_response 400 (message_or (message errorData) ''Failed to compress image'')
             | Inr JsonNull \<Rightarrow> error_response 500 (TypeError_reading ''null'' ''message'')
             | Inl (TRPCError c m) \<Rightarrow> error_response 500 m
             | Inl (Error m) \<Rightarrow> error_response 500 m
             | Inl NotAnError \<Rightarrow> error_response 500 ''Failed to process image''))"
  using assms
  by (simp add: POST_handler_def POST_try_def run_defs read_message_def Let_def
      split: sum.splits thrown.splits json_value.splits)

text \<open>
  What holds of every rejected shrink call: no further request is issued, and a body that
  is a JSON object gives a \<open>BAD_REQUEST\<close> error (status 400 in the route handler) with the
  object's \<open>message\<close> when that is present and not empty, and with
  \<open>Failed to compress image\<close> otherwise.
\<close>

lemma upstream_rejection:
  assumes "fetch e (plain_get (imageUrl input)) = Inr imageResponse"
    and "ok imageResponse"
    and "fetch e (shrink_request (arrayBuffer imageResponse) (mimeType input)) = Inr response"
    and "\<not> ok response"
  shows "fst (compress e input) =
           [plain_get (imageUrl input), shrink_request (arrayBuffer imageResponse) (mimeType input)]
       \<and> fst (POST_handler e input) =
           [plain_get (imageUrl input), shrink_request (arrayBuffer imageResponse) (mimeType input)]
       \<and> (\<forall>errorData m. json response = Inr (JsonObject errorData)
               \<and> message errorData = Some m \<and> m \<noteq> [] \<longrightarrow>
             snd (compress e input) = Inl (TRPCError BAD_REQUEST m)
             \<and> snd (POST_handler e input) = error_response 400 m)
       \<and> (\<forall>errorData. json response = Inr (JsonObject errorData)
               \<and> (message errorData = None \<or> message errorData = Some []) \<longrightarrow>
             snd (compress e input) = Inl (TRPCError BAD_REQUEST ''Failed to compress image'')
             \<and> snd (POST_handler e input) = error_response 400 ''Failed to compress image'')"
  unfolding compress_rejected_path [OF assms] POST_rejected_path [OF assms]
  by (auto simp: message_or_def)

text \<open>
  C9 fails on the code where the rejected shrink call carries no JSON object. When the
  body is not JSON (a gateway's error page), \<open>response.json()\<close> rejects inside the \<open>try\<close>;
  when the body is the JSON literal \<open>null\<close>, reading \<open>errorData.message\<close> throws. Either
  way the fallback \<open>|| "Failed to compress image"\<close> is never reached: the tRPC procedure
  ends with an \<open>INTERNAL_SERVER_ERROR\<close> and the route handler with status 500, carrying the
  parser's or the \<open>TypeError\<close>'s message, neither an upstream message nor the fixed default.
  A rejection whose body is an object with a message is forwarded as the claim says.
\<close>

theorem unparseable_rejection_is_internal_error:
  "compress gateway_env same_format_input =
     ([plain_get source_url, shrink_request (replicate 100 0) image_png],
      Inl (TRPCError INTERNAL_SERVER_ERROR ''Unexpected token in JSON''))
   \<and> POST_handler gateway_env same_format_input =
     ([plain_get source_url, shrink_request (replicate 100 0) image_png],
      error_response 500 ''Unexpected token in JSON'')
   \<and> compress null_env same_format_input =
     ([plain_get source_url, shrink_request (replicate 100 0) image_png],
      Inl (TRPCError INTERNAL_SERVER_ERROR (TypeError_reading ''null'' ''message'')))
   \<and> POST_handler null_env same_format_input =
     ([plain_get source_url, shrink_request (replicate 100 0) image_png],
      error_response 500 (TypeError_reading ''null'' ''message''))
   \<and> compress rejecting_env same_format_input =
     ([plain_get source_url, shrink_request (replicate 100 0) image_png],
      Inl (TRPCError BAD_REQUEST ''Unsupported media type''))
   \<and> POST_handler rejecting_env same_format_input =
     ([plain_get source_url, shrink_request (replicate 100 0) image_png],
      error_response 400 ''Unsupported media type'')"
  by (simp add: compress_def compress_try_def POST_handler_def POST_try_def apiOptions_of_def
        gateway_env_def null_env_def null_rejection_response_def rejecting_env_def
        rejection_response_def read_message_def message_or_def
        run_defs request_defs sample_defs Let_def)

lemma savedBytes_of_nonneg: "0 \<le> savedBytes_of original compressed"
  by (simp add: savedBytes_of_def)

lemma Math_round_nonneg: "0 \<le> x \<Longrightarrow> 0 \<le> Math_round x"
  by (simp add: Math_round_def)

lemma compressionRatio_of_in_range:
  assumes "0 < original" and "compressed \<le> original"
  shows "compressionRatio_of original compressed = Number (spec_compressionRatio original compressed)
         \<and> 0 \<le> spec_compressionRatio original compressed
         \<and> spec_compressionRatio original compressed \<le> 100"
proof -
  let ?q = "(of_int (int original - int compressed) / of_nat original) * (100 :: real)"
  have sb: "savedBytes_of original compressed = int original - int compressed"
    using assms by (simp add: savedBytes_of_def)
  have eq: "compressionRatio_of original compressed = Number (spec_compressionRatio original compressed)"
    using assms by (simp add: compressionRatio_of_def spec_compressionRatio_def sb)
  have "(of_int (int original - int compressed) :: real) / of_nat original \<le> 1"
    using assms by simp
  then have "?q \<le> 1 * 100" by (rule mult_right_mono) simp
  then have "?q \<le> of_int 100" by simp
  then have up: "Math_round ?q \<le> 100" by (rule Math_round_le)
  have "0 \<le> ?q" using assms by simp
  then have lo: "0 \<le> Math_round ?q" by (rule Math_round_nonneg)
  show ?thesis using eq up lo by (simp add: spec_compressionRatio_def sb)
qed

text \<open>
  C1 fails on the code where the output is larger than the input. With a source of 100
  bytes and an output of 150 bytes in the same format, both handlers return a result with
  \<open>savedBytes = 0\<close> and \<open>compressionRatio = -50\<close>: the ratio is computed from the
  difference that \<open>savedBytes\<close> clamps, not from \<open>savedBytes\<close>, which would give 0.
\<close>

theorem negative_ratio_on_growth:
  "snd (compress growth_env same_format_input) =
     Inr \<lparr>success = True, originalSize = 100, compressedSize = 150, savedBytes = 0,
          compressionRatio = Number (- 50),
          compressedImage = data_uri growth_env image_png (replicate 150 0),
          originalType = image_png, outputType = image_png\<rparr>
   \<and> snd (POST_handler growth_env same_format_input) =
     \<lparr>status = 200, response_body = ResultBody
        \<lparr>success = True, originalSize = 100, compressedSize = 150, savedBytes = 0,
         compressionRatio = Number (- 50),
         compressedImage = data_uri growth_env image_png (replicate 150 0),
         originalType = image_png, outputType = image_png\<rparr>\<rparr>
   \<and> spec_compressionRatio 100 150 = 0"
  by (simp add: compress_def compress_try_def compress_finish_def apiOptions_of_def growth_env_def
        POST_handler_def POST_try_def POST_result_def spec_compressionRatio_def
        run_defs request_defs sample_defs get_output_def data_uri_def savedBytes_of_def
        compressionRatio_of_def Math_round_def Let_def)

text \<open>
  C2, as stated, fails for the tRPC procedure, which has no size check: a conversion to
  \<open>image/png\<close> whose final 10 bytes are a tenth of the 100 source bytes is returned as a
  success.
\<close>

theorem trpc_accepts_png_shrinkage:
  "outputFormat to_png_input = image_png
   \<and> compress suspect_env to_png_input =
     ([plain_get source_url, shrink_request (replicate 100 0) image_webp,
       convert_request shrunk_url (apiOptions_of to_png_input), plain_get converted_url],
      Inr \<lparr>success = True, originalSize = 100, compressedSize = 10, savedBytes = 90,
           compressionRatio = Number 90,
           compressedImage = data_uri suspect_env image_png (replicate 10 0),
           originalType = image_webp, outputType = image_png\<rparr>)"
  by (simp add: compress_def compress_try_def compress_finish_def apiOptions_of_def suspect_env_def
        converted_url_def run_defs request_defs sample_defs get_output_def data_uri_def savedBytes_of_def
        compressionRatio_of_def Math_round_def is_json_content_type_def Let_def)

text \<open>
  C2, amended. In the route handler, when the requested output is \<open>image/png\<close>, a
  conversion took place and its final bytes (fetched through the descriptor, or the
  conversion's own body) are fewer than 80% of the source's, the handler answers with
  status 400 and the error \<open>PNG conversion resulted in unexpected quality loss\<close>, not with a
  result. The tRPC procedure makes no such check.
\<close>

theorem png_shrinkage_is_rejected:
  assumes "fetch e (plain_get (imageUrl input)) = Inr imageResponse"
    and "ok imageResponse"
    and "fetch e (shrink_request (arrayBuffer imageResponse) (mimeType input)) = Inr response"
    and "ok response"
    and "json response = Inr (JsonObject data)"
    and "output_field data = Some out"
    and "outputFormat input = image_png"
    and "mimeType input \<noteq> image_png"
    and "fetch e (convert_request (url out) (POST_apiOptions input)) = Inr convertResponse"
    and "ok convertResponse"
    and "POST_final_buffer e convertResponse = (t, Inr (Inr finalImageBuffer))"
    and "real (length finalImageBuffer) < 0.8 * real (length (arrayBuffer imageResponse))"
  shows "snd (POST_handler e input) =
           error_response 400 ''PNG conversion resulted in unexpected quality loss''"
proof -
  have pos: "length (arrayBuffer imageResponse) \<noteq> 0"
    using assms(12) by (cases "length (arrayBuffer imageResponse) = 0") simp_all
  then have "real (length finalImageBuffer) / real (length (arrayBuffer imageResponse)) < 8 / 10"
    using assms(12) by (simp add: field_simps)
  with pos have below: "sizeRatio_below (length finalImageBuffer) (length (arrayBuffer imageResponse))"
    by (simp add: sizeRatio_below_def)
  show ?thesis
    using assms(1-11) below
    by (simp add: POST_handler_def POST_try_def run_defs get_output_def Let_def)
qed

lemma suspect_env_facts:
  "fetch suspect_env (plain_get (imageUrl to_png_input)) = Inr (bytes_response ''image/webp'' 100)"
  "ok (bytes_response ''image/webp'' 100)"
  "fetch suspect_env (shrink_request (arrayBuffer (bytes_response ''image/webp'' 100)) (mimeType to_png_input))
     = Inr (descriptor_response shrunk_url 60)"
  "ok (descriptor_response shrunk_url 60)"
  "json (descriptor_response shrunk_url 60)
     = Inr (JsonObject \<lparr>message = None,
            output_field = Some \<lparr>url = shrunk_url, output_size = 60, output_type = ''image/png''\<rparr>\<rparr>)"
  "output_field \<lparr>message = None,
            output_field = Some \<lparr>url = shrunk_url, output_size = 60, output_type = ''image/png''\<rparr>\<rparr>
     = Some \<lparr>url = shrunk_url, output_size = 60, output_type = ''image/png''\<rparr>"
  "outputFormat to_png_input = image_png"
  "mimeType to_png_input \<noteq> image_png"
  "fetch suspect_env (convert_request (url \<lparr>url = shrunk_url, output_size = 60, output_type = ''image/png''\<rparr>)
       (POST_apiOptions to_png_input))
     = Inr (descriptor_response converted_url 10)"
  "ok (descriptor_response converted_url 10)"
  "POST_final_buffer suspect_env (descriptor_response converted_url 10)
     = ([authorized_get converted_url], Inr (Inr (replicate 10 0)))"
  "real (length (replicate 10 (0 :: 8 word))) < 0.8 * real (length (arrayBuffer (bytes_response ''image/webp'' 100)))"
  by (simp_all add: suspect_env_def converted_url_def request_defs sample_defs
      is_json_content_type_def POST_final_buffer_def run_defs get_output_def)

theorem png_shrinkage_is_rejected_witness:
  "real (length (replicate 10 (0 :: 8 word))) < 0.8 * real (length (arrayBuffer (bytes_response ''image/webp'' 100)))
   \<and> outputFormat to_png_input = image_png
   \<and> snd (POST_handler suspect_env to_png_input) =
       error_response 400 ''PNG conversion resulted in unexpected quality loss''"
  using png_shrinkage_is_rejected [OF suspect_env_facts] suspect_env_facts(7,12)
  by simp

end
